theory Spec2Isabelle
  imports Complex_Main
begin

section \<open>The C++ \<^verbatim>\<open>double\<close>\<close>

text \<open>
  The controller computes on \<^verbatim>\<open>double\<close>s and guards every accumulator with
  \<^verbatim>\<open>std::isfinite\<close>, so the model needs the non-finite values. A \<open>double\<close> is an exact
  real, or one of the three special values of IEEE 754. The special values follow the IEEE
  rules (NaN is absorbing and compares false with everything, \<open>Inf - Inf\<close> and \<open>Inf * 0\<close>
  are NaN). Rounding, overflow of a finite operation to infinity and the sign of zero are
  not modelled: finite arithmetic is exact, and a nonzero finite value divided by zero is
  the infinity of the dividend's sign.
\<close>

datatype double = Fin real | PInf | NInf | NaN

instantiation double :: "{plus, minus, uminus, times, inverse, ord}"
begin

fun plus_double :: "double \<Rightarrow> double \<Rightarrow> double" where
  "plus_double NaN _ = NaN"
| "plus_double _ NaN = NaN"
| "plus_double (Fin a) (Fin b) = Fin (a + b)"
| "plus_double PInf NInf = NaN"
| "plus_double NInf PInf = NaN"
| "plus_double PInf _ = PInf"
| "plus_double _ PInf = PInf"
| "plus_double NInf _ = NInf"
| "plus_double _ NInf = NInf"

fun uminus_double :: "double \<Rightarrow> double" where
  "uminus_double (Fin a) = Fin (- a)"
| "uminus_double PInf = NInf"
| "uminus_double NInf = PInf"
| "uminus_double NaN = NaN"

definition minus_double :: "double \<Rightarrow> double \<Rightarrow> double" where
  "minus_double a b = a + (- b)"

fun times_double :: "double \<Rightarrow> double \<Rightarrow> double" where
  "times_double NaN _ = NaN"
| "times_double _ NaN = NaN"
| "times_double (Fin a) (Fin b) = Fin (a * b)"
| "times_double PInf (Fin b) = (if b = 0 then NaN else if 0 < b then PInf else NInf)"
| "times_double NInf (Fin b) = (if b = 0 then NaN else if 0 < b then NInf else PInf)"
| "times_double (Fin a) PInf = (if a = 0 then NaN else if 0 < a then PInf else NInf)"
| "times_double (Fin a) NInf = (if a = 0 then NaN else if 0 < a then NInf else PInf)"
| "times_double PInf PInf = PInf"
| "times_double PInf NInf = NInf"
| "times_double NInf PInf = NInf"
| "times_double NInf NInf = PInf"

fun divide_double :: "double \<Rightarrow> double \<Rightarrow> double" where
  "divide_double NaN _ = NaN"
| "divide_double _ NaN = NaN"
| "divide_double (Fin a) (Fin b) =
     (if b = 0 then (if a = 0 then NaN else if 0 < a then PInf else NInf) else Fin (a / b))"
| "divide_double (Fin a) _ = Fin 0"
| "divide_double PInf (Fin b) = (if 0 \<le> b then PInf else NInf)"
| "divide_double NInf (Fin b) = (if 0 \<le> b then NInf else PInf)"
| "divide_double _ _ = NaN"

definition inverse_double :: "double \<Rightarrow> double" where
  "inverse_double a = divide (Fin 1) a"

fun less_double :: "double \<Rightarrow> double \<Rightarrow> bool" where
  "less_double NaN _ = False"
| "less_double _ NaN = False"
| "less_double (Fin a) (Fin b) = (a < b)"
| "less_double _ NInf = False"
| "less_double PInf _ = False"
| "less_double _ _ = True"

fun less_eq_double :: "double \<Rightarrow> double \<Rightarrow> bool" where
  "less_eq_double NaN _ = False"
| "less_eq_double _ NaN = False"
| "less_eq_double (Fin a) (Fin b) = (a \<le> b)"
| "less_eq_double NInf _ = True"
| "less_eq_double _ PInf = True"
| "less_eq_double _ _ = False"

instance ..

end

text \<open>\<^verbatim>\<open>std::isfinite\<close> and the functions of \<^verbatim>\<open>math.h\<close> the controller calls.\<close>

fun isfinite :: "double \<Rightarrow> bool" where
  "isfinite (Fin a) = True"
| "isfinite _ = False"

fun fabs :: "double \<Rightarrow> double" where
  "fabs (Fin a) = Fin \<bar>a\<bar>"
| "fabs NaN = NaN"
| "fabs _ = PInf"

fun sqrt_d :: "double \<Rightarrow> double" where
  "sqrt_d (Fin a) = (if a < 0 then NaN else Fin (sqrt a))"
| "sqrt_d PInf = PInf"
| "sqrt_d _ = NaN"

fun sin_d :: "double \<Rightarrow> double" where
  "sin_d (Fin a) = Fin (sin a)"
| "sin_d _ = NaN"

fun cos_d :: "double \<Rightarrow> double" where
  "cos_d (Fin a) = Fin (cos a)"
| "cos_d _ = NaN"

fun asin :: "double \<Rightarrow> double" where
  "asin (Fin a) = (if - 1 \<le> a \<and> a \<le> 1 then Fin (arcsin a) else NaN)"
| "asin _ = NaN"

text \<open>
  \<^verbatim>\<open>mrs_lib::sign\<close> is a helper of the \<^verbatim>\<open>mrs_lib\<close> library:
  \<^verbatim>\<open>(T(0) < val) - (val < T(0))\<close>.
\<close>

definition sign :: "double \<Rightarrow> int" where
  "sign val = (if Fin 0 < val then 1 else 0) - (if val < Fin 0 then 1 else 0)"

section \<open>Messages and controller state\<close>

text \<open>
  \<^verbatim>\<open>Eigen::Vector3d\<close> and \<^verbatim>\<open>Eigen::Vector2d\<close> are tuples; index \<open>X\<close>, \<open>Y\<close>, \<open>Z\<close> of
  the source is the first, second, third component. A \<^verbatim>\<open>ros::Time\<close> is a count of
  nanoseconds; \<^verbatim>\<open>toSec\<close> turns a difference of two stamps into seconds.
\<close>

type_synonym Vector3d = "double \<times> double \<times> double"
type_synonym Vector2d = "double \<times> double"

definition toSec :: "int \<Rightarrow> double" where
  "toSec d = Fin (real_of_int d / 1000000000)"

text \<open>
  \<^verbatim>\<open>mrs_msgs::UavState\<close>, with the fields the controller reads. The source turns the
  orientation quaternion into roll, pitch and yaw with the \<^verbatim>\<open>tf\<close> library
  (\<^verbatim>\<open>getRPY\<close>); the model carries the three angles.
\<close>

record UavState =
  stamp :: int
  frame_id :: string
  pose_position :: Vector3d
  pose_orientation_rpy :: Vector3d
  velocity_linear :: Vector3d

text \<open>\<^verbatim>\<open>mrs_msgs::PositionCommand\<close>, the reference.\<close>

record PositionCommand =
  position :: Vector3d
  velocity :: Vector3d
  acceleration :: Vector3d
  yaw :: double
  disable_position_gains :: bool

datatype AttitudeMode = MODE_EULER_ATTITUDE | MODE_OTHER nat

text \<open>\<^verbatim>\<open>mrs_msgs::AttitudeCommand\<close>, with the fields the controller writes or reads.\<close>

record AttitudeCommand =
  cmd_stamp :: int
  euler_attitude :: Vector3d
  euler_attitude_set :: bool
  quater_attitude_set :: bool
  attitude_rate_set :: bool
  thrust :: double
  mode_mask :: AttitudeMode
  mass_difference :: double
  total_mass :: double
  disturbance_bx_b :: double
  disturbance_by_b :: double
  disturbance_bx_w :: double
  disturbance_by_w :: double
  disturbance_wx_w :: double
  disturbance_wy_w :: double
  controller_enforcing_constraints :: bool
  controller :: string

text \<open>\<^verbatim>\<open>geometry_msgs::Vector3Stamped\<close>, handed to the transformer on a frame switch.\<close>

record Vector3Stamped =
  v3_stamp :: int
  v3_frame_id :: string
  vector :: Vector3d

text \<open>
  The twelve gains: the live ones (members \<^verbatim>\<open>kpxy\<close> ... \<^verbatim>\<open>km_lim\<close> of the class) and
  the desired ones (\<^verbatim>\<open>nsf_controllerConfig\<close>, set by dynamic reconfigure).
\<close>

record Gains =
  kpxy :: double
  kvxy :: double
  kaxy :: double
  kiwxy :: double
  kibxy :: double
  kpz :: double
  kvz :: double
  kaz :: double
  km :: double
  kiwxy_lim :: double
  kibxy_lim :: double
  km_lim :: double

record MotorParams =
  hover_thrust_a :: double
  hover_thrust_b :: double

text \<open>
  The members of \<^verbatim>\<open>class NsfController\<close>; \<open>gains\<close> groups the live gains. A member
  the source names with a trailing underscore (\<^verbatim>\<open>g_\<close>, \<^verbatim>\<open>uav_state_\<close>) ends in \<open>_m\<close>
  here, since a name cannot end in an underscore.
\<close>

record NsfController =
  is_active :: bool
  uav_state_m :: UavState
  drs_desired_gains :: Gains
  uav_mass_m :: double
  uav_mass_difference :: double
  g_m :: double
  motor_params_m :: MotorParams
  hover_thrust :: double
  gains :: Gains
  max_tilt_angle_m :: double
  thrust_saturation_m :: double
  last_output_command :: "AttitudeCommand option"
  activation_control_command_m :: AttitudeCommand
  last_update :: int
  first_iteration :: bool
  mute_lateral_gains :: bool
  mutex_lateral_gains_after_toggle :: bool
  mute_coefficitent_m :: double
  gains_filter_max_change_m :: double
  gains_filter_min_change_m :: double
  Ib_b :: Vector2d
  Iw_w :: Vector2d

section \<open>activate and deactivate\<close>

text \<open>
  \<^verbatim>\<open>activate\<close>: a null \<^verbatim>\<open>cmd\<close> pointer is \<open>None\<close>. The result is the state and the
  returned flag.
\<close>

definition activate :: "NsfController \<Rightarrow> AttitudeCommand option \<Rightarrow> NsfController \<times> bool" where
  "activate s cmd =
     (case cmd of
        None \<Rightarrow> (s, False)
      | Some c \<Rightarrow>
          (s\<lparr> activation_control_command_m := c\<lparr> controller_enforcing_constraints := False \<rparr>,
              uav_mass_difference := mass_difference c,
              Ib_b := (asin (disturbance_bx_b c / (g_m s * total_mass c)),
                       asin (disturbance_by_b c / (g_m s * total_mass c))),
              Iw_w := (asin (disturbance_wx_w c / (g_m s * total_mass c)),
                       asin (disturbance_wy_w c / (g_m s * total_mass c))),
              first_iteration := True,
              is_active := True \<rparr>, True))"

definition deactivate :: "NsfController \<Rightarrow> NsfController" where
  "deactivate s = s\<lparr> is_active := False, first_iteration := False, uav_mass_difference := Fin 0 \<rparr>"

section \<open>update\<close>

text \<open>\<^verbatim>\<open>rotate2d\<close>: the product of Eigen's \<^verbatim>\<open>Rotation2D\<close> matrix with the vector.\<close>

definition rotate2d :: "Vector2d \<Rightarrow> double \<Rightarrow> Vector2d" where
  "rotate2d vector_in angle =
     (cos_d angle * fst vector_in - sin_d angle * snd vector_in,
      sin_d angle * fst vector_in + cos_d angle * snd vector_in)"

definition cwiseProduct :: "Vector3d \<Rightarrow> Vector3d \<Rightarrow> Vector3d" where
  "cwiseProduct a b =
     (case a of (a0, a1, a2) \<Rightarrow> case b of (b0, b1, b2) \<Rightarrow> (a0 * b0, a1 * b1, a2 * b2))"

definition vadd3 :: "Vector3d \<Rightarrow> Vector3d \<Rightarrow> Vector3d" where
  "vadd3 a b =
     (case a of (a0, a1, a2) \<Rightarrow> case b of (b0, b1, b2) \<Rightarrow> (a0 + b0, a1 + b1, a2 + b2))"

definition vsub3 :: "Vector3d \<Rightarrow> Vector3d \<Rightarrow> Vector3d" where
  "vsub3 a b =
     (case a of (a0, a1, a2) \<Rightarrow> case b of (b0, b1, b2) \<Rightarrow> (a0 - b0, a1 - b1, a2 - b2))"

text \<open>
  The control errors: \<open>Ep = Rp - Op\<close> and \<open>Ev = Rv - Ov\<close>, each vector with its \<open>y\<close>
  negated as the source builds it.
\<close>

definition flip_y :: "Vector3d \<Rightarrow> Vector3d" where
  "flip_y v = (case v of (v0, v1, v2) \<Rightarrow> (v0, - v1, v2))"

definition Ep :: "UavState \<Rightarrow> PositionCommand \<Rightarrow> Vector3d" where
  "Ep uav_state reference = vsub3 (flip_y (position reference)) (flip_y (pose_position uav_state))"

definition Ev :: "UavState \<Rightarrow> PositionCommand \<Rightarrow> Vector3d" where
  "Ev uav_state reference = vsub3 (flip_y (velocity reference)) (flip_y (velocity_linear uav_state))"

text \<open>The hover thrust, recalculated on every full tick from the estimated total mass.\<close>

definition calc_total_mass :: "NsfController \<Rightarrow> double" where
  "calc_total_mass s = uav_mass_m s + uav_mass_difference s"

definition calc_hover_thrust :: "NsfController \<Rightarrow> double" where
  "calc_hover_thrust s =
     sqrt_d (calc_total_mass s * g_m s) * hover_thrust_a (motor_params_m s)
       + hover_thrust_b (motor_params_m s)"

text \<open>
  \<open>feedback_w\<close> before validation: the state feedback of the position and velocity
  errors, the feed-forward of the reference acceleration, both integrals and the hover
  thrust, the vertical component divided by \<open>cos roll * cos pitch\<close>.
\<close>

definition feedback_w :: "NsfController \<Rightarrow> UavState \<Rightarrow> PositionCommand \<Rightarrow> Vector3d" where
  "feedback_w s uav_state reference =
     (case pose_orientation_rpy uav_state of (roll, pitch, yaw_angle) \<Rightarrow>
      case acceleration reference of (acc_x, acc_y, acc_z) \<Rightarrow>
        (let Ib_w = rotate2d (Ib_b s) (- yaw_angle);
             kp = (kpxy (gains s), kpxy (gains s), kpz (gains s));
             kv = (kvxy (gains s), kvxy (gains s), kvz (gains s));
             ka = (kaxy (gains s), kaxy (gains s), kaz (gains s));
             feed_forward =
               (asin ((acc_x * cos_d pitch * cos_d roll) / g_m s),
                asin ((- acc_y * cos_d pitch * cos_d roll) / g_m s),
                acc_z * (calc_hover_thrust s / g_m s));
             p_component = cwiseProduct kp (Ep uav_state reference);
             v_component = cwiseProduct kv (Ev uav_state reference);
             a_component = cwiseProduct ka feed_forward;
             i_component = (fst Ib_w + fst (Iw_w s), snd Ib_w + snd (Iw_w s), Fin 0)
         in cwiseProduct
              (vadd3 (vadd3 (vadd3 (vadd3 p_component v_component) a_component) i_component)
                 (Fin 0, Fin 0, calc_hover_thrust s))
              (Fin 1, Fin 1, Fin 1 / (cos_d roll * cos_d pitch))))"

text \<open>
  Validation and saturation. The source repeats one pattern for the two horizontal
  feedback components, the four integral components and the mass difference: a value that
  is not finite becomes 0 (and is not counted as saturated), a value beyond the limit
  becomes the limit. The second component of the result is the \<open>saturated\<close> flag.
\<close>

definition saturate :: "double \<Rightarrow> double \<Rightarrow> double \<times> bool" where
  "saturate v limit =
     (if \<not> isfinite v then (Fin 0, False)
      else if v > limit then (limit, True)
      else if v < - limit then (- limit, True)
      else (v, False))"

text \<open>The vertical component is cut at the thrust saturation above and at 0 below.\<close>

definition saturate_thrust :: "double \<Rightarrow> double \<Rightarrow> double \<times> bool" where
  "saturate_thrust v thrust_sat =
     (if \<not> isfinite v then (Fin 0, False)
      else if v > thrust_sat then (thrust_sat, True)
      else if v < Fin 0 then (Fin 0, True)
      else (v, False))"

definition feedback_X :: "NsfController \<Rightarrow> UavState \<Rightarrow> PositionCommand \<Rightarrow> double \<times> bool" where
  "feedback_X s uav_state reference =
     saturate (fst (feedback_w s uav_state reference)) (max_tilt_angle_m s)"

definition feedback_Y :: "NsfController \<Rightarrow> UavState \<Rightarrow> PositionCommand \<Rightarrow> double \<times> bool" where
  "feedback_Y s uav_state reference =
     saturate (fst (snd (feedback_w s uav_state reference))) (max_tilt_angle_m s)"

definition feedback_Z :: "NsfController \<Rightarrow> UavState \<Rightarrow> PositionCommand \<Rightarrow> double \<times> bool" where
  "feedback_Z s uav_state reference =
     saturate_thrust (snd (snd (feedback_w s uav_state reference))) (thrust_saturation_m s)"

text \<open>
  The world integral: \<open>integration_switch\<close> is 0 on a horizontal axis that is saturated
  with the sign of the position error, and 1 otherwise.
\<close>

definition integration_switch :: "double \<times> bool \<Rightarrow> double \<Rightarrow> double" where
  "integration_switch fb ep =
     (if snd fb \<and> sign (fst fb) = sign ep then Fin 0 else Fin 1)"

definition integrate_world ::
  "NsfController \<Rightarrow> UavState \<Rightarrow> PositionCommand \<Rightarrow> double \<Rightarrow> Vector2d" where
  "integrate_world s uav_state reference dt =
     (case Ep uav_state reference of (ep_x, ep_y, ep_z) \<Rightarrow>
        (fst (saturate
           (fst (Iw_w s)
              + kiwxy (gains s)
                * (ep_x * integration_switch (feedback_X s uav_state reference) ep_x) * dt)
           (kiwxy_lim (gains s))),
         fst (saturate
           (snd (Iw_w s)
              + kiwxy (gains s)
                * (ep_y * integration_switch (feedback_Y s uav_state reference) ep_y) * dt)
           (kiwxy_lim (gains s)))))"

text \<open>The body integral: the position error rotated by the yaw, with no switch.\<close>

definition integrate_body ::
  "NsfController \<Rightarrow> UavState \<Rightarrow> PositionCommand \<Rightarrow> double \<Rightarrow> Vector2d" where
  "integrate_body s uav_state reference dt =
     (case Ep uav_state reference of (ep_x, ep_y, ep_z) \<Rightarrow>
      case pose_orientation_rpy uav_state of (roll, pitch, yaw_angle) \<Rightarrow>
        (let Ep_body = rotate2d (ep_x, ep_y) yaw_angle
         in (fst (saturate (fst (Ib_b s) + kibxy (gains s) * fst Ep_body * dt) (kibxy_lim (gains s))),
             fst (saturate (snd (Ib_b s) + kibxy (gains s) * snd Ep_body * dt) (kibxy_lim (gains s))))))"

text \<open>The mass difference: integrated unless the vertical component was saturated.\<close>

definition integrate_mass ::
  "NsfController \<Rightarrow> UavState \<Rightarrow> PositionCommand \<Rightarrow> double \<Rightarrow> double" where
  "integrate_mass s uav_state reference dt =
     (case Ep uav_state reference of (ep_x, ep_y, ep_z) \<Rightarrow>
        fst (saturate
          (if \<not> snd (feedback_Z s uav_state reference)
           then uav_mass_difference s + km (gains s) * ep_z * dt
           else uav_mass_difference s)
          (km_lim (gains s))))"

text \<open>
  The full tick, after the early returns: recalculate the hover thrust, take over the mute
  flag of the reference, integrate the three estimators and produce the command. \<open>now\<close>
  is \<^verbatim>\<open>ros::Time::now()\<close>; \<open>dt\<close> is the time since the previous call.
\<close>

definition output_command ::
  "int \<Rightarrow> NsfController \<Rightarrow> UavState \<Rightarrow> PositionCommand \<Rightarrow> double \<Rightarrow> AttitudeCommand" where
  "output_command now s uav_state reference dt =
     (case pose_orientation_rpy uav_state of (roll, pitch, yaw_angle) \<Rightarrow>
        (let Ib_w = rotate2d (Ib_b s) (- yaw_angle);
             feedback_b =
               rotate2d (fst (feedback_X s uav_state reference), fst (feedback_Y s uav_state reference))
                 yaw_angle;
             Ib_b_new = integrate_body s uav_state reference dt;
             Iw_w_new = integrate_world s uav_state reference dt
         in \<lparr> cmd_stamp = now,
              euler_attitude = (snd feedback_b, fst feedback_b, yaw reference),
              euler_attitude_set = True,
              quater_attitude_set = False,
              attitude_rate_set = False,
              thrust = fst (feedback_Z s uav_state reference),
              mode_mask = MODE_EULER_ATTITUDE,
              mass_difference = integrate_mass s uav_state reference dt,
              total_mass = calc_total_mass s,
              disturbance_bx_b = g_m s * calc_total_mass s * sin_d (fst Ib_b_new),
              disturbance_by_b = g_m s * calc_total_mass s * sin_d (snd Ib_b_new),
              disturbance_bx_w = g_m s * calc_total_mass s * sin_d (fst Ib_w),
              disturbance_by_w = g_m s * calc_total_mass s * sin_d (snd Ib_w),
              disturbance_wx_w = g_m s * calc_total_mass s * sin_d (fst Iw_w_new),
              disturbance_wy_w = g_m s * calc_total_mass s * sin_d (snd Iw_w_new),
              controller_enforcing_constraints = False,
              controller = ''NsfController'' \<rparr>))"

definition full_tick ::
  "int \<Rightarrow> NsfController \<Rightarrow> UavState \<Rightarrow> PositionCommand \<Rightarrow> double
     \<Rightarrow> NsfController \<times> AttitudeCommand option" where
  "full_tick now s uav_state reference dt =
     (s\<lparr> hover_thrust := calc_hover_thrust s,
         mutex_lateral_gains_after_toggle :=
           (if mute_lateral_gains s \<and> \<not> disable_position_gains reference then True
            else mutex_lateral_gains_after_toggle s),
         mute_lateral_gains := disable_position_gains reference,
         Iw_w := integrate_world s uav_state reference dt,
         Ib_b := integrate_body s uav_state reference dt,
         uav_mass_difference := integrate_mass s uav_state reference dt,
         last_output_command := Some (output_command now s uav_state reference dt) \<rparr>,
      Some (output_command now s uav_state reference dt))"

text \<open>
  \<^verbatim>\<open>update\<close>: the state after the call and the returned command; a null pointer is
  \<open>None\<close>. The state snapshot is stored first, then come the three early returns
  (inactive, first iteration, two states too close in time), then the full tick.
\<close>

definition update ::
  "int \<Rightarrow> NsfController \<Rightarrow> UavState \<Rightarrow> PositionCommand
     \<Rightarrow> NsfController \<times> AttitudeCommand option" where
  "update now s uav_state reference =
     (let s1 = s\<lparr> uav_state_m := uav_state \<rparr> in
      if \<not> is_active s1 then (s1, None)
      else if first_iteration s1 then
        (s1\<lparr> last_update := stamp uav_state, first_iteration := False \<rparr>,
         Some (activation_control_command_m s1))
      else
        (let dt = toSec (stamp uav_state - last_update s1);
             s2 = s1\<lparr> last_update := stamp uav_state \<rparr>
         in if fabs dt \<le> Fin 0.001 then
              (case last_output_command s2 of
                 Some c \<Rightarrow> (s2, Some c)
               | None \<Rightarrow> (s2, Some (activation_control_command_m s2)))
            else full_tick now s2 uav_state reference dt))"

section \<open>switchOdometrySource\<close>

text \<open>
  \<open>transformSingle\<close> is the transformer of the common handlers (the frame it is asked
  for, and the stamped vector): \<open>None\<close> is the empty \<^verbatim>\<open>std::optional\<close> of a transform
  that is not available. \<open>msg\<close> is the state in the new frame.
\<close>

definition switchOdometrySource ::
  "(string \<Rightarrow> Vector3Stamped \<Rightarrow> Vector3Stamped option) \<Rightarrow> int \<Rightarrow> NsfController \<Rightarrow> UavState
     \<Rightarrow> NsfController" where
  "switchOdometrySource transformSingle now s msg =
     (let world_integrals =
            \<lparr> v3_stamp = now,
              v3_frame_id = frame_id (uav_state_m s),
              vector = (fst (Iw_w s), snd (Iw_w s), Fin 0) \<rparr>
      in case transformSingle (frame_id msg) world_integrals of
           Some res \<Rightarrow> s\<lparr> Iw_w := (fst (vector res), fst (snd (vector res))) \<rparr>
         | None \<Rightarrow> s\<lparr> Iw_w := (Fin 0, Fin 0) \<rparr>)"

section \<open>The gain filter\<close>

text \<open>
  \<^verbatim>\<open>calculateGainChange\<close>: one step of a live gain towards its desired value. The
  logging of a large change has no effect on the result. The branches and comparisons
  are those of the source; the arithmetic on finite values is exact here, so nothing
  that rests on the size of a step (arrival at the desired value, the speed of the
  approach, the absence of overshoot) is derived from this definition.
\<close>

definition calculateGainChange :: "NsfController \<Rightarrow> double \<Rightarrow> double \<Rightarrow> bool \<Rightarrow> double" where
  "calculateGainChange s current_value desired_value bypass_rate =
     (let change = desired_value - current_value in
      if \<not> bypass_rate then
        (if fabs current_value < Fin 0.000001 then
           current_value + change * gains_filter_max_change_m s
         else
           (let change_in_perc = (current_value + change) / current_value - Fin 1;
                saturated_change =
                  (if change_in_perc > gains_filter_max_change_m s
                   then current_value * gains_filter_max_change_m s
                   else if change_in_perc < - gains_filter_max_change_m s
                   then current_value * - gains_filter_max_change_m s
                   else change)
            in if fabs saturated_change < fabs change * gains_filter_min_change_m s
               then current_value + change * gains_filter_min_change_m s
               else current_value + saturated_change))
      else current_value + change)"

text \<open>
  \<^verbatim>\<open>timerGainsFilter\<close>: \<open>bypass_filter\<close> is the local of that name, handed to the five
  lateral gains; the other seven gains never bypass the rate limit.
\<close>

definition bypass_filter :: "NsfController \<Rightarrow> bool" where
  "bypass_filter s = (mute_lateral_gains s \<or> mutex_lateral_gains_after_toggle s)"

definition gain_coeff :: "NsfController \<Rightarrow> double" where
  "gain_coeff s = (if mute_lateral_gains s then mute_coefficitent_m s else Fin 1)"

definition timerGainsFilter :: "NsfController \<Rightarrow> NsfController" where
  "timerGainsFilter s =
     (let k = gains s; d = drs_desired_gains s in
      s\<lparr> mutex_lateral_gains_after_toggle := False,
         gains :=
           \<lparr> kpxy = calculateGainChange s (kpxy k) (kpxy d * gain_coeff s) (bypass_filter s),
             kvxy = calculateGainChange s (kvxy k) (kvxy d * gain_coeff s) (bypass_filter s),
             kaxy = calculateGainChange s (kaxy k) (kaxy d * gain_coeff s) (bypass_filter s),
             kiwxy = calculateGainChange s (kiwxy k) (kiwxy d * gain_coeff s) (bypass_filter s),
             kibxy = calculateGainChange s (kibxy k) (kibxy d * gain_coeff s) (bypass_filter s),
             kpz = calculateGainChange s (kpz k) (kpz d) False,
             kvz = calculateGainChange s (kvz k) (kvz d) False,
             kaz = calculateGainChange s (kaz k) (kaz d) False,
             km = calculateGainChange s (km k) (km d) False,
             kiwxy_lim = calculateGainChange s (kiwxy_lim k) (kiwxy_lim d) False,
             kibxy_lim = calculateGainChange s (kibxy_lim k) (kibxy_lim d) False,
             km_lim = calculateGainChange s (km_lim k) (km_lim d) False \<rparr> \<rparr>)"

section \<open>Repeated runs of the gain filter\<close>


text \<open>
  The local \<^verbatim>\<open>saturated_change\<close> of \<^verbatim>\<open>calculateGainChange\<close> on finite values: the change
  \<open>ch\<close> of the current value \<open>c\<close>, cut to the fraction \<open>mx\<close> of \<open>c\<close>.
\<close>

definition saturated_change :: "real \<Rightarrow> real \<Rightarrow> real \<Rightarrow> real" where
  "saturated_change mx c ch =
     (if (c + ch) / c - 1 > mx then c * mx
      else if (c + ch) / c - 1 < - mx then c * - mx
      else ch)"

section \<open>Example data\<close>

text \<open>
  A configured, active controller past its first iteration, and the messages the closed
  examples below feed it: level attitude, gains \<open>kp = 2\<close>, \<open>kv = 1\<close>, \<open>ka = 0\<close>, hover
  thrust 0.5, tilt limit 0.5, thrust saturation 0.9, integral limits 0.2.
\<close>

definition example_gains :: Gains where
  "example_gains =
     \<lparr> kpxy = Fin 2, kvxy = Fin 1, kaxy = Fin 0, kiwxy = Fin 1, kibxy = Fin 1,
       kpz = Fin 2, kvz = Fin 1, kaz = Fin 0, km = Fin 1,
       kiwxy_lim = Fin 0.2, kibxy_lim = Fin 0.2, km_lim = Fin 1 \<rparr>"

definition example_cmd :: AttitudeCommand where
  "example_cmd =
     \<lparr> cmd_stamp = 0, euler_attitude = (Fin 0, Fin 0, Fin 0), euler_attitude_set = True,
       quater_attitude_set = False, attitude_rate_set = False, thrust = Fin 0.5,
       mode_mask = MODE_EULER_ATTITUDE, mass_difference = Fin 0.25, total_mass = Fin 2,
       disturbance_bx_b = Fin 0, disturbance_by_b = Fin 0, disturbance_bx_w = Fin 0,
       disturbance_by_w = Fin 0, disturbance_wx_w = Fin 20, disturbance_wy_w = Fin 0,
       controller_enforcing_constraints = True, controller = ''MpcController'' \<rparr>"

definition example_state :: "int \<Rightarrow> Vector3d \<Rightarrow> UavState" where
  "example_state t p =
     \<lparr> stamp = t, frame_id = ''gps_origin'', pose_position = p,
       pose_orientation_rpy = (Fin 0, Fin 0, Fin 0), velocity_linear = (Fin 0, Fin 0, Fin 0) \<rparr>"

definition example_reference :: "Vector3d \<Rightarrow> bool \<Rightarrow> PositionCommand" where
  "example_reference p d =
     \<lparr> position = p, velocity = (Fin 0, Fin 0, Fin 0), acceleration = (Fin 0, Fin 0, Fin 0),
       yaw = Fin 0, disable_position_gains = d \<rparr>"

definition example_controller :: NsfController where
  "example_controller =
     \<lparr> is_active = True, uav_state_m = example_state 0 (Fin 0, Fin 0, Fin 0),
       drs_desired_gains = example_gains, uav_mass_m = Fin 2, uav_mass_difference = Fin 0,
       g_m = Fin 10, motor_params_m = \<lparr> hover_thrust_a = Fin 0, hover_thrust_b = Fin 0.5 \<rparr>,
       hover_thrust = Fin 0.5, gains = example_gains, max_tilt_angle_m = Fin 0.5,
       thrust_saturation_m = Fin 0.9, last_output_command = None,
       activation_control_command_m = example_cmd, last_update = 0, first_iteration = False,
       mute_lateral_gains = False, mutex_lateral_gains_after_toggle = False,
       mute_coefficitent_m = Fin 0.5, gains_filter_max_change_m = Fin 0.1,
       gains_filter_min_change_m = Fin 0.01, Ib_b = (Fin 0, Fin 0), Iw_w = (Fin 0, Fin 0) \<rparr>"

text \<open>
  A transformer that knows one source frame only: from \<open>gps_origin\<close> it maps \<open>(a, b)\<close>
  to \<open>(b, a)\<close>, from any other frame it has no transform.
\<close>

definition swap_transform :: "string \<Rightarrow> Vector3Stamped \<Rightarrow> Vector3Stamped option" where
  "swap_transform target v =
     (if v3_frame_id v = ''gps_origin''
      then Some (v\<lparr> v3_frame_id := target,
                    vector := (fst (snd (vector v)), fst (vector v), snd (snd (vector v))) \<rparr>)
      else None)"

lemmas example_defs =
  example_controller_def example_state_def example_reference_def example_gains_def
  example_cmd_def

lemmas filter_eval =
  timerGainsFilter_def calculateGainChange_def gain_coeff_def bypass_filter_def

lemmas nsf_eval =
  update_def toSec_def full_tick_def output_command_def integrate_world_def
  integrate_body_def integrate_mass_def Ep_def Ev_def flip_y_def vsub3_def minus_double_def
  feedback_X_def feedback_Y_def feedback_Z_def feedback_w_def rotate2d_def cwiseProduct_def
  vadd3_def calc_hover_thrust_def calc_total_mass_def saturate_def saturate_thrust_def
  integration_switch_def sign_def Let_def

section \<open>Saturation and the shape of a full tick\<close>

lemma saturate_bounds:
  "Fin 0 \<le> limit \<Longrightarrow>
     isfinite (fst (saturate v limit)) \<and> - limit \<le> fst (saturate v limit)
       \<and> fst (saturate v limit) \<le> limit"
  by (cases v; cases limit) (auto simp add: saturate_def)

lemma saturate_thrust_bounds:
  "Fin 0 \<le> thrust_sat \<Longrightarrow>
     isfinite (fst (saturate_thrust v thrust_sat)) \<and> Fin 0 \<le> fst (saturate_thrust v thrust_sat)
       \<and> fst (saturate_thrust v thrust_sat) \<le> thrust_sat"
  by (cases v; cases thrust_sat) (auto simp add: saturate_thrust_def)

text \<open>
  An active controller past its first iteration, given a state more than a millisecond
  away from the previous one, runs the full tick on the state with the snapshot and the
  time of the last update stored.
\<close>

lemma update_full_tick:
  "is_active s \<Longrightarrow> \<not> first_iteration s \<Longrightarrow>
   \<not> fabs (toSec (stamp uav_state - last_update s)) \<le> Fin 0.001 \<Longrightarrow>
   update now s uav_state reference =
     full_tick now (s\<lparr> uav_state_m := uav_state, last_update := stamp uav_state \<rparr>)
       uav_state reference (toSec (stamp uav_state - last_update s))"
  by (simp add: update_def Let_def)

text \<open>Neither the snapshot nor the time of the last update enters the control law.\<close>

lemma feedback_w_frame [simp]:
  "feedback_w (s\<lparr> uav_state_m := u, last_update := t \<rparr>) = feedback_w s"
  by (intro ext) (simp add: feedback_w_def calc_hover_thrust_def calc_total_mass_def)

lemma feedback_frame [simp]:
  "feedback_X (s\<lparr> uav_state_m := u, last_update := t \<rparr>) = feedback_X s"
  "feedback_Y (s\<lparr> uav_state_m := u, last_update := t \<rparr>) = feedback_Y s"
  "feedback_Z (s\<lparr> uav_state_m := u, last_update := t \<rparr>) = feedback_Z s"
  by (intro ext, simp add: feedback_X_def feedback_Y_def feedback_Z_def)+

lemma integrate_frame [simp]:
  "integrate_world (s\<lparr> uav_state_m := u, last_update := t \<rparr>) = integrate_world s"
  "integrate_body (s\<lparr> uav_state_m := u, last_update := t \<rparr>) = integrate_body s"
  "integrate_mass (s\<lparr> uav_state_m := u, last_update := t \<rparr>) = integrate_mass s"
  by (intro ext, simp add: integrate_world_def integrate_body_def integrate_mass_def
        cong: if_cong)+

lemma full_tick_estimators:
  assumes "is_active s" and "\<not> first_iteration s"
    and "\<not> fabs (toSec (stamp uav_state - last_update s)) \<le> Fin 0.001"
  shows "Iw_w (fst (update now s uav_state reference)) =
           integrate_world s uav_state reference (toSec (stamp uav_state - last_update s))"
    and "Ib_b (fst (update now s uav_state reference)) =
           integrate_body s uav_state reference (toSec (stamp uav_state - last_update s))"
    and "uav_mass_difference (fst (update now s uav_state reference)) =
           integrate_mass s uav_state reference (toSec (stamp uav_state - last_update s))"
  using assms by (simp_all add: update_full_tick full_tick_def)

section \<open>The estimators stay within their limits\<close>

text \<open>
  Claim C2, as the code has it. After a full tick of \<open>update\<close> (the controller active
  and past its first iteration, the state more than a millisecond away from the previous
  one), both components of the world integral lie within \<open>\<plusminus>kiwxy_lim\<close>, both components
  of the body integral within \<open>\<plusminus>kibxy_lim\<close> and the mass difference within \<open>\<plusminus>km_lim\<close>,
  and all five are finite. Nothing is asked of the vehicle state, the reference, the gains
  or the estimators before the tick: any of them may be NaN or infinite. The three limits
  are not negative (and so not NaN), as the data model of the live gains has it.
\<close>

theorem estimators_bounded_after_tick:
  assumes "is_active s" and "\<not> first_iteration s"
    and "\<not> fabs (toSec (stamp uav_state - last_update s)) \<le> Fin 0.001"
    and "Fin 0 \<le> kiwxy_lim (gains s)" and "Fin 0 \<le> kibxy_lim (gains s)"
    and "Fin 0 \<le> km_lim (gains s)"
  shows "isfinite (fst (Iw_w (fst (update now s uav_state reference))))
       \<and> - kiwxy_lim (gains s) \<le> fst (Iw_w (fst (update now s uav_state reference)))
       \<and> fst (Iw_w (fst (update now s uav_state reference))) \<le> kiwxy_lim (gains s)
       \<and> isfinite (snd (Iw_w (fst (update now s uav_state reference))))
       \<and> - kiwxy_lim (gains s) \<le> snd (Iw_w (fst (update now s uav_state reference)))
       \<and> snd (Iw_w (fst (update now s uav_state reference))) \<le> kiwxy_lim (gains s)
       \<and> isfinite (fst (Ib_b (fst (update now s uav_state reference))))
       \<and> - kibxy_lim (gains s) \<le> fst (Ib_b (fst (update now s uav_state reference)))
       \<and> fst (Ib_b (fst (update now s uav_state reference))) \<le> kibxy_lim (gains s)
       \<and> isfinite (snd (Ib_b (fst (update now s uav_state reference))))
       \<and> - kibxy_lim (gains s) \<le> snd (Ib_b (fst (update now s uav_state reference)))
       \<and> snd (Ib_b (fst (update now s uav_state reference))) \<le> kibxy_lim (gains s)
       \<and> isfinite (uav_mass_difference (fst (update now s uav_state reference)))
       \<and> - km_lim (gains s) \<le> uav_mass_difference (fst (update now s uav_state reference))
       \<and> uav_mass_difference (fst (update now s uav_state reference)) \<le> km_lim (gains s)"
  unfolding full_tick_estimators [OF assms(1-3)]
  using saturate_bounds [OF assms(4)] saturate_bounds [OF assms(5)] saturate_bounds [OF assms(6)]
  by (simp add: integrate_world_def integrate_body_def integrate_mass_def Let_def
        split: prod.splits)

text \<open>
  The theorem at a tick whose vehicle state carries a NaN and an infinite position, one
  second after the previous update: the estimators come out finite (all 0, in fact).
\<close>

theorem estimators_bounded_after_tick_witness:
  "is_active example_controller \<and> \<not> first_iteration example_controller
   \<and> \<not> fabs (toSec (stamp (example_state 1000000000 (NaN, Fin 0, PInf))
                       - last_update example_controller)) \<le> Fin 0.001
   \<and> Fin 0 \<le> kiwxy_lim (gains example_controller)
   \<and> Fin 0 \<le> kibxy_lim (gains example_controller)
   \<and> Fin 0 \<le> km_lim (gains example_controller)
   \<and> Iw_w (fst (update 5 example_controller (example_state 1000000000 (NaN, Fin 0, PInf))
                  (example_reference (Fin 1, Fin 0, Fin 1) False))) = (Fin 0, Fin 0)
   \<and> Ib_b (fst (update 5 example_controller (example_state 1000000000 (NaN, Fin 0, PInf))
                  (example_reference (Fin 1, Fin 0, Fin 1) False))) = (Fin 0, Fin 0)
   \<and> uav_mass_difference
        (fst (update 5 example_controller (example_state 1000000000 (NaN, Fin 0, PInf))
                (example_reference (Fin 1, Fin 0, Fin 1) False))) = Fin 0"
  using estimators_bounded_after_tick
    [of example_controller "example_state 1000000000 (NaN, Fin 0, PInf)" 5
        "example_reference (Fin 1, Fin 0, Fin 1) False"]
  by (simp add: nsf_eval example_defs)

text \<open>
  The claim as stated fails on a tick that returns early: the first call of \<open>update\<close>
  after \<open>activate\<close> returns the activation command and leaves the estimators as
  \<open>activate\<close> seeded them. The example command (world disturbance 20 N in \<open>x\<close>, total
  mass 2, \<open>g = 10\<close>) seeds the world integral with \<open>asin 1 = pi / 2\<close>, beyond the limit 0.2,
  and it is still there after the tick; a command with total mass 0 seeds it with NaN.
\<close>

theorem estimators_bounded_after_tick_counterexample:
  "snd (activate (deactivate example_controller) (Some example_cmd))
   \<and> first_iteration (fst (activate (deactivate example_controller) (Some example_cmd)))
   \<and> snd (update 5 (fst (activate (deactivate example_controller) (Some example_cmd)))
            (example_state 1000000000 (Fin 0, Fin 0, Fin 0))
            (example_reference (Fin 0, Fin 0, Fin 0) False))
        = Some (example_cmd\<lparr> controller_enforcing_constraints := False \<rparr>)
   \<and> Iw_w (fst (update 5 (fst (activate (deactivate example_controller) (Some example_cmd)))
            (example_state 1000000000 (Fin 0, Fin 0, Fin 0))
            (example_reference (Fin 0, Fin 0, Fin 0) False))) = (Fin (pi / 2), Fin 0)
   \<and> kiwxy_lim (gains (fst (update 5 (fst (activate (deactivate example_controller) (Some example_cmd)))
            (example_state 1000000000 (Fin 0, Fin 0, Fin 0))
            (example_reference (Fin 0, Fin 0, Fin 0) False)))) = Fin 0.2
   \<and> \<not> Fin (pi / 2) \<le> Fin 0.2
   \<and> Iw_w (fst (update 5
            (fst (activate (deactivate example_controller) (Some (example_cmd\<lparr> total_mass := Fin 0 \<rparr>))))
            (example_state 1000000000 (Fin 0, Fin 0, Fin 0))
            (example_reference (Fin 0, Fin 0, Fin 0) False))) = (NaN, NaN)
   \<and> \<not> isfinite NaN"
proof -
  have "\<not> pi / 2 \<le> 1 / 5"
    using pi_ge_two by linarith
  then show ?thesis
    by (simp add: activate_def deactivate_def update_def example_defs Let_def)
qed

section \<open>The anti-windup switch of the world integral\<close>

lemma isfinite_plusD: "isfinite (a + b) \<Longrightarrow> isfinite a \<and> isfinite b"
  by (cases a; cases b) auto

lemma isfinite_timesD: "isfinite (a * b) \<Longrightarrow> isfinite a \<and> isfinite b"
  by (cases a; cases b) (auto split: if_splits)

lemma saturated_finite: "snd (saturate v limit) \<Longrightarrow> isfinite v"
  by (simp add: saturate_def split: if_splits)

lemma saturate_within:
  "isfinite v \<Longrightarrow> - limit \<le> v \<Longrightarrow> v \<le> limit \<Longrightarrow> fst (saturate v limit) = v"
  by (cases v; cases limit) (auto simp add: saturate_def)

lemma isfinite_head_of_sum: "isfinite ((a + b + c + d + e) * f) \<Longrightarrow> isfinite a"
  by (blast dest: isfinite_timesD isfinite_plusD)

lemma isfinite_factor: "isfinite (a * b) \<Longrightarrow> isfinite b"
  by (cases a; cases b) (simp_all split: if_splits)

text \<open>The shape of the feedback: the position error enters through \<open>kp\<close> times the error.\<close>

lemma feedback_w_form:
  "\<exists>bx cx dx ey' by cy dy ez' bz cz dz f.
     feedback_w s uav_state reference =
       ((kpxy (gains s) * fst (Ep uav_state reference) + bx + cx + dx + Fin 0) * Fin 1,
        (kpxy (gains s) * fst (snd (Ep uav_state reference)) + by + cy + dy + Fin 0) * Fin 1,
        (ez' + bz + cz + dz + calc_hover_thrust s) * f)"
proof -
  obtain ex ey ez where ep: "Ep uav_state reference = (ex, ey, ez)"
    by (cases "Ep uav_state reference")
  obtain vx vy vz where ev: "Ev uav_state reference = (vx, vy, vz)"
    by (cases "Ev uav_state reference")
  obtain roll pitch yaw_angle where rpy: "pose_orientation_rpy uav_state = (roll, pitch, yaw_angle)"
    by (cases "pose_orientation_rpy uav_state")
  obtain ax ay az where acc: "acceleration reference = (ax, ay, az)"
    by (cases "acceleration reference")
  show ?thesis
    unfolding feedback_w_def cwiseProduct_def vadd3_def Let_def ep ev rpy acc prod.case fst_conv snd_conv
    by (intro exI) (rule refl)
qed

text \<open>
  A horizontal component that was saturated was finite before, and so was the position
  error on that axis.
\<close>

lemma feedback_X_saturated_Ep_finite:
  assumes "snd (feedback_X s uav_state reference)"
  shows "isfinite (fst (Ep uav_state reference))"
proof -
  have "isfinite (fst (feedback_w s uav_state reference))"
    using assms by (simp add: feedback_X_def saturated_finite)
  moreover obtain bx cx dx where
    "fst (feedback_w s uav_state reference) =
       (kpxy (gains s) * fst (Ep uav_state reference) + bx + cx + dx + Fin 0) * Fin 1"
    using feedback_w_form [of s uav_state reference] by force
  ultimately have "isfinite (kpxy (gains s) * fst (Ep uav_state reference))"
    using isfinite_head_of_sum by simp
  then show ?thesis
    by (rule isfinite_factor)
qed

lemma feedback_Y_saturated_Ep_finite:
  assumes "snd (feedback_Y s uav_state reference)"
  shows "isfinite (fst (snd (Ep uav_state reference)))"
proof -
  have "isfinite (fst (snd (feedback_w s uav_state reference)))"
    using assms by (simp add: feedback_Y_def saturated_finite)
  moreover obtain b c d where
    "fst (snd (feedback_w s uav_state reference)) =
       (kpxy (gains s) * fst (snd (Ep uav_state reference)) + b + c + d + Fin 0) * Fin 1"
    using feedback_w_form [of s uav_state reference] by force
  ultimately have "isfinite (kpxy (gains s) * fst (snd (Ep uav_state reference)))"
    using isfinite_head_of_sum by simp
  then show ?thesis
    by (rule isfinite_factor)
qed

lemma switched_off_step: "isfinite k \<Longrightarrow> isfinite e \<Longrightarrow> a + k * (e * Fin 0) * toSec d = a"
  by (cases k; cases e; cases a) (simp_all add: toSec_def)

text \<open>
  Claim C3, as the code has it. On a full tick with a finite gain \<open>kiwxy\<close>, on each
  horizontal axis whose feedback was saturated with the sign of the position error, the
  world integral is not integrated: its component after the tick is its value before the
  tick put through the saturation with limit \<open>kiwxy_lim\<close>. So it equals the value before
  the tick when that value is finite and within \<open>\<plusminus>kiwxy_lim\<close>.
\<close>

theorem world_integral_anti_windup:
  assumes "is_active s" and "\<not> first_iteration s"
    and "\<not> fabs (toSec (stamp uav_state - last_update s)) \<le> Fin 0.001"
    and "isfinite (kiwxy (gains s))"
  shows "(snd (feedback_X s uav_state reference)
          \<and> sign (fst (feedback_X s uav_state reference)) = sign (fst (Ep uav_state reference))
          \<longrightarrow> fst (Iw_w (fst (update now s uav_state reference)))
                = fst (saturate (fst (Iw_w s)) (kiwxy_lim (gains s)))
            \<and> (isfinite (fst (Iw_w s)) \<and> - kiwxy_lim (gains s) \<le> fst (Iw_w s)
                  \<and> fst (Iw_w s) \<le> kiwxy_lim (gains s)
                \<longrightarrow> fst (Iw_w (fst (update now s uav_state reference))) = fst (Iw_w s)))
       \<and> (snd (feedback_Y s uav_state reference)
          \<and> sign (fst (feedback_Y s uav_state reference)) = sign (fst (snd (Ep uav_state reference)))
          \<longrightarrow> snd (Iw_w (fst (update now s uav_state reference)))
                = fst (saturate (snd (Iw_w s)) (kiwxy_lim (gains s)))
            \<and> (isfinite (snd (Iw_w s)) \<and> - kiwxy_lim (gains s) \<le> snd (Iw_w s)
                  \<and> snd (Iw_w s) \<le> kiwxy_lim (gains s)
                \<longrightarrow> snd (Iw_w (fst (update now s uav_state reference))) = snd (Iw_w s)))"
proof -
  obtain ex ey ez where ep: "Ep uav_state reference = (ex, ey, ez)"
    by (cases "Ep uav_state reference")
  let ?dt = "stamp uav_state - last_update s"
  have x: "fst (Iw_w (fst (update now s uav_state reference)))
             = fst (saturate (fst (Iw_w s)) (kiwxy_lim (gains s)))"
    if "snd (feedback_X s uav_state reference)"
      and "sign (fst (feedback_X s uav_state reference)) = sign (fst (Ep uav_state reference))"
  proof -
    have "isfinite ex"
      using feedback_X_saturated_Ep_finite [OF that(1)] by (simp add: ep)
    then have "fst (Iw_w s) + kiwxy (gains s) * (ex * Fin 0) * toSec ?dt = fst (Iw_w s)"
      using assms(4) by (rule switched_off_step [rotated])
    then show ?thesis
      using that
      by (simp add: full_tick_estimators(1) [OF assms(1-3)] integrate_world_def ep
            integration_switch_def)
  qed
  have y: "snd (Iw_w (fst (update now s uav_state reference)))
             = fst (saturate (snd (Iw_w s)) (kiwxy_lim (gains s)))"
    if "snd (feedback_Y s uav_state reference)"
      and "sign (fst (feedback_Y s uav_state reference)) = sign (fst (snd (Ep uav_state reference)))"
  proof -
    have "isfinite ey"
      using feedback_Y_saturated_Ep_finite [OF that(1)] by (simp add: ep)
    then have "snd (Iw_w s) + kiwxy (gains s) * (ey * Fin 0) * toSec ?dt = snd (Iw_w s)"
      using assms(4) by (rule switched_off_step [rotated])
    then show ?thesis
      using that
      by (simp add: full_tick_estimators(1) [OF assms(1-3)] integrate_world_def ep
            integration_switch_def)
  qed
  show ?thesis
    using x y by (simp add: saturate_within)
qed

text \<open>
  The theorem at a tick saturated on both axes with the sign of the error: the world
  integral \<open>(0.1, 0.15)\<close>, within the limit 0.2, stays.
\<close>

theorem world_integral_anti_windup_witness:
  "is_active (example_controller\<lparr> Iw_w := (Fin 0.1, Fin 0.15) \<rparr>)
   \<and> \<not> first_iteration (example_controller\<lparr> Iw_w := (Fin 0.1, Fin 0.15) \<rparr>)
   \<and> \<not> fabs (toSec (stamp (example_state 1000000000 (Fin 0, Fin 0, Fin 0))
                       - last_update (example_controller\<lparr> Iw_w := (Fin 0.1, Fin 0.15) \<rparr>)))
          \<le> Fin 0.001
   \<and> isfinite (kiwxy (gains (example_controller\<lparr> Iw_w := (Fin 0.1, Fin 0.15) \<rparr>)))
   \<and> feedback_X (example_controller\<lparr> Iw_w := (Fin 0.1, Fin 0.15) \<rparr>)
         (example_state 1000000000 (Fin 0, Fin 0, Fin 0))
         (example_reference (Fin 1, Fin (- 1), Fin 0) False) = (Fin 0.5, True)
   \<and> feedback_Y (example_controller\<lparr> Iw_w := (Fin 0.1, Fin 0.15) \<rparr>)
         (example_state 1000000000 (Fin 0, Fin 0, Fin 0))
         (example_reference (Fin 1, Fin (- 1), Fin 0) False) = (Fin 0.5, True)
   \<and> Ep (example_state 1000000000 (Fin 0, Fin 0, Fin 0))
         (example_reference (Fin 1, Fin (- 1), Fin 0) False) = (Fin 1, Fin 1, Fin 0)
   \<and> Iw_w (fst (update 5 (example_controller\<lparr> Iw_w := (Fin 0.1, Fin 0.15) \<rparr>)
                  (example_state 1000000000 (Fin 0, Fin 0, Fin 0))
                  (example_reference (Fin 1, Fin (- 1), Fin 0) False))) = (Fin 0.1, Fin 0.15)"
  using world_integral_anti_windup
    [of "example_controller\<lparr> Iw_w := (Fin 0.1, Fin 0.15) \<rparr>"
        "example_state 1000000000 (Fin 0, Fin 0, Fin 0)"
        "example_reference (Fin 1, Fin (- 1), Fin 0) False" 5]
  by (simp add: nsf_eval example_defs)

text \<open>
  The claim as stated fails when the world integral is beyond the limit before the tick.
  The integral sits at its limit 0.2; dynamic reconfigure asks for the limit 0.1, and one
  run of the gain filter brings the live limit to 0.18. The next tick is saturated in
  \<open>x\<close> with the sign of the error, and the world integral goes from 0.2 to 0.18.
\<close>

theorem world_integral_anti_windup_counterexample:
  "is_active (timerGainsFilter (example_controller
      \<lparr> drs_desired_gains := example_gains\<lparr> kiwxy_lim := Fin 0.1 \<rparr>, Iw_w := (Fin 0.2, Fin 0) \<rparr>))
   \<and> \<not> first_iteration (timerGainsFilter (example_controller
      \<lparr> drs_desired_gains := example_gains\<lparr> kiwxy_lim := Fin 0.1 \<rparr>, Iw_w := (Fin 0.2, Fin 0) \<rparr>))
   \<and> \<not> fabs (toSec (stamp (example_state 1000000000 (Fin 0, Fin 0, Fin 0))
          - last_update (timerGainsFilter (example_controller
      \<lparr> drs_desired_gains := example_gains\<lparr> kiwxy_lim := Fin 0.1 \<rparr>, Iw_w := (Fin 0.2, Fin 0) \<rparr>))))
        \<le> Fin 0.001
   \<and> kiwxy_lim (gains (timerGainsFilter (example_controller
      \<lparr> drs_desired_gains := example_gains\<lparr> kiwxy_lim := Fin 0.1 \<rparr>, Iw_w := (Fin 0.2, Fin 0) \<rparr>)))
       = Fin 0.18
   \<and> feedback_X (timerGainsFilter (example_controller
      \<lparr> drs_desired_gains := example_gains\<lparr> kiwxy_lim := Fin 0.1 \<rparr>, Iw_w := (Fin 0.2, Fin 0) \<rparr>))
         (example_state 1000000000 (Fin 0, Fin 0, Fin 0))
         (example_reference (Fin 1, Fin 0, Fin 0) False) = (Fin 0.5, True)
   \<and> sign (Fin 0.5) = sign (fst (Ep (example_state 1000000000 (Fin 0, Fin 0, Fin 0))
         (example_reference (Fin 1, Fin 0, Fin 0) False)))
   \<and> fst (Iw_w (timerGainsFilter (example_controller
      \<lparr> drs_desired_gains := example_gains\<lparr> kiwxy_lim := Fin 0.1 \<rparr>, Iw_w := (Fin 0.2, Fin 0) \<rparr>)))
       = Fin 0.2
   \<and> fst (Iw_w (fst (update 5 (timerGainsFilter (example_controller
      \<lparr> drs_desired_gains := example_gains\<lparr> kiwxy_lim := Fin 0.1 \<rparr>, Iw_w := (Fin 0.2, Fin 0) \<rparr>))
         (example_state 1000000000 (Fin 0, Fin 0, Fin 0))
         (example_reference (Fin 1, Fin 0, Fin 0) False)))) = Fin 0.18"
  by (simp add: nsf_eval filter_eval example_defs)

section \<open>Thrust\<close>

lemma le_double_trans: "(a::double) \<le> b \<Longrightarrow> b \<le> c \<Longrightarrow> a \<le> c"
  by (cases a; cases b; cases c) auto

text \<open>
  Claim C7, as the code has it. A full tick (the controller active and past its first
  iteration, the state more than a millisecond away from the previous one) returns a
  command whose thrust is the vertical feedback cut by \<open>saturate_thrust\<close>: at the
  configured thrust saturation above and at 0 below (a finite negative feedback gives
  thrust 0, not minus the saturation). With a thrust saturation that is not negative the
  thrust is finite and lies between 0 and the thrust saturation, whatever the inputs of
  the tick; it lies in \<open>[0, 1]\<close> when the thrust saturation is configured at 1 or below.
\<close>

theorem thrust_in_range:
  assumes "is_active s" and "\<not> first_iteration s"
    and "\<not> fabs (toSec (stamp uav_state - last_update s)) \<le> Fin 0.001"
    and "Fin 0 \<le> thrust_saturation_m s"
  shows "\<exists>cmd. snd (update now s uav_state reference) = Some cmd
       \<and> thrust cmd =
           fst (saturate_thrust (snd (snd (feedback_w s uav_state reference))) (thrust_saturation_m s))
       \<and> isfinite (thrust cmd) \<and> Fin 0 \<le> thrust cmd
       \<and> thrust cmd \<le> thrust_saturation_m s
       \<and> (thrust_saturation_m s \<le> Fin 1 \<longrightarrow> thrust cmd \<le> Fin 1)
       \<and> (isfinite (snd (snd (feedback_w s uav_state reference)))
            \<and> snd (snd (feedback_w s uav_state reference)) < Fin 0 \<longrightarrow> thrust cmd = Fin 0)
       \<and> (isfinite (snd (snd (feedback_w s uav_state reference)))
            \<and> snd (snd (feedback_w s uav_state reference)) > thrust_saturation_m s
            \<longrightarrow> thrust cmd = thrust_saturation_m s)"
proof -
  let ?v = "snd (snd (feedback_w s uav_state reference))"
  let ?t = "fst (saturate_thrust ?v (thrust_saturation_m s))"
  have out: "snd (update now s uav_state reference) =
               Some (output_command now (s\<lparr> uav_state_m := uav_state, last_update := stamp uav_state \<rparr>)
                       uav_state reference (toSec (stamp uav_state - last_update s)))"
    using assms(1-3) by (simp add: update_full_tick full_tick_def)
  have th: "thrust (output_command now (s\<lparr> uav_state_m := uav_state, last_update := stamp uav_state \<rparr>)
                       uav_state reference (toSec (stamp uav_state - last_update s))) = ?t"
    by (simp add: output_command_def feedback_Z_def Let_def split: prod.split)
  have b: "isfinite ?t \<and> Fin 0 \<le> ?t \<and> ?t \<le> thrust_saturation_m s"
    by (rule saturate_thrust_bounds [OF assms(4)])
  have one: "thrust_saturation_m s \<le> Fin 1 \<longrightarrow> ?t \<le> Fin 1"
    using b le_double_trans by blast
  have low: "isfinite ?v \<and> ?v < Fin 0 \<longrightarrow> ?t = Fin 0"
    using assms(4) by (cases ?v; cases "thrust_saturation_m s") (auto simp add: saturate_thrust_def)
  have high: "isfinite ?v \<and> ?v > thrust_saturation_m s \<longrightarrow> ?t = thrust_saturation_m s"
    by (simp add: saturate_thrust_def)
  show ?thesis
    using out th b one low high by simp
qed

text \<open>
  The theorem at a reference one metre below the vehicle (feedback \<open>-1.5\<close>, thrust 0) and
  at one a metre above it (feedback 2.5, thrust 0.9, the saturation).
\<close>

theorem thrust_in_range_witness:
  "is_active example_controller \<and> \<not> first_iteration example_controller
   \<and> \<not> fabs (toSec (stamp (example_state 1000000000 (Fin 0, Fin 0, Fin 0))
                       - last_update example_controller)) \<le> Fin 0.001
   \<and> Fin 0 \<le> thrust_saturation_m example_controller
   \<and> thrust_saturation_m example_controller \<le> Fin 1
   \<and> snd (snd (feedback_w example_controller (example_state 1000000000 (Fin 0, Fin 0, Fin 0))
                  (example_reference (Fin 0, Fin 0, Fin (- 1)) False))) = Fin (- 1.5)
   \<and> (\<exists>cmd. snd (update 5 example_controller (example_state 1000000000 (Fin 0, Fin 0, Fin 0))
                  (example_reference (Fin 0, Fin 0, Fin (- 1)) False)) = Some cmd
         \<and> thrust cmd = Fin 0)
   \<and> snd (snd (feedback_w example_controller (example_state 1000000000 (Fin 0, Fin 0, Fin 0))
                  (example_reference (Fin 0, Fin 0, Fin 1) False))) = Fin 2.5
   \<and> (\<exists>cmd. snd (update 5 example_controller (example_state 1000000000 (Fin 0, Fin 0, Fin 0))
                  (example_reference (Fin 0, Fin 0, Fin 1) False)) = Some cmd
         \<and> thrust cmd = Fin 0.9)"
  using thrust_in_range
    [of example_controller "example_state 1000000000 (Fin 0, Fin 0, Fin 0)" 5
        "example_reference (Fin 0, Fin 0, Fin (- 1)) False"]
    thrust_in_range
    [of example_controller "example_state 1000000000 (Fin 0, Fin 0, Fin 0)" 5
        "example_reference (Fin 0, Fin 0, Fin 1) False"]
  by (simp add: nsf_eval example_defs)

text \<open>
  The claim as stated fails twice. Nothing keeps the configured thrust saturation at 1
  or below: with a thrust saturation of 2 a full tick with feedback 1.5 returns thrust
  1.5. And a tick that returns early returns a stored command as it is: the first call of
  \<open>update\<close> after \<open>activate\<close> with a command of thrust 5 returns thrust 5.
\<close>

theorem thrust_in_range_counterexample:
  "is_active (example_controller\<lparr> thrust_saturation_m := Fin 2 \<rparr>)
   \<and> \<not> first_iteration (example_controller\<lparr> thrust_saturation_m := Fin 2 \<rparr>)
   \<and> \<not> fabs (toSec (stamp (example_state 1000000000 (Fin 0, Fin 0, Fin 0))
                       - last_update (example_controller\<lparr> thrust_saturation_m := Fin 2 \<rparr>)))
          \<le> Fin 0.001
   \<and> map_option thrust
         (snd (update 5 (example_controller\<lparr> thrust_saturation_m := Fin 2 \<rparr>)
                 (example_state 1000000000 (Fin 0, Fin 0, Fin 0))
                 (example_reference (Fin 0, Fin 0, Fin 0.5) False))) = Some (Fin 1.5)
   \<and> \<not> Fin 1.5 \<le> Fin 1
   \<and> map_option thrust
         (snd (update 5
                 (fst (activate (deactivate example_controller)
                         (Some (example_cmd\<lparr> thrust := Fin 5 \<rparr>))))
                 (example_state 1000000000 (Fin 0, Fin 0, Fin 0))
                 (example_reference (Fin 0, Fin 0, Fin 0) False))) = Some (Fin 5)
   \<and> \<not> Fin 5 \<le> Fin 1"
  by (simp add: nsf_eval activate_def deactivate_def example_defs)

section \<open>The mass estimator\<close>

text \<open>
  Claim C8. On a full tick the mass difference grows by \<open>km\<close> times the vertical position
  error times \<open>dt\<close> exactly when the vertical feedback was not saturated, and stays as it
  was when it was saturated; the result then goes through the saturation with limit
  \<open>km_lim\<close> (cut to \<open>\<plusminus>km_lim\<close>, a value that is not finite becoming 0).
\<close>

theorem mass_difference_update:
  assumes "is_active s" and "\<not> first_iteration s"
    and "\<not> fabs (toSec (stamp uav_state - last_update s)) \<le> Fin 0.001"
  shows "uav_mass_difference (fst (update now s uav_state reference)) =
           fst (saturate
             (if snd (feedback_Z s uav_state reference) then uav_mass_difference s
              else uav_mass_difference s
                     + km (gains s)
                       * (snd (snd (position reference)) - snd (snd (pose_position uav_state)))
                       * toSec (stamp uav_state - last_update s))
             (km_lim (gains s)))"
  unfolding full_tick_estimators(3) [OF assms]
  by (simp add: integrate_mass_def Ep_def vsub3_def flip_y_def split: prod.split)

text \<open>
  The theorem at an unsaturated tick (error 0.1 for one second: 0.1) and at a saturated
  one (error 1: unchanged); and the cut at \<open>km_lim = 1\<close> after ten seconds of error 0.15.
\<close>

theorem mass_difference_update_witness:
  "is_active example_controller \<and> \<not> first_iteration example_controller
   \<and> \<not> fabs (toSec (stamp (example_state 1000000000 (Fin 0, Fin 0, Fin 0))
                       - last_update example_controller)) \<le> Fin 0.001
   \<and> \<not> snd (feedback_Z example_controller (example_state 1000000000 (Fin 0, Fin 0, Fin 0))
              (example_reference (Fin 0, Fin 0, Fin 0.1) False))
   \<and> uav_mass_difference
        (fst (update 5 example_controller (example_state 1000000000 (Fin 0, Fin 0, Fin 0))
                (example_reference (Fin 0, Fin 0, Fin 0.1) False))) = Fin 0.1
   \<and> snd (feedback_Z example_controller (example_state 1000000000 (Fin 0, Fin 0, Fin 0))
              (example_reference (Fin 0, Fin 0, Fin 1) False))
   \<and> uav_mass_difference
        (fst (update 5 example_controller (example_state 1000000000 (Fin 0, Fin 0, Fin 0))
                (example_reference (Fin 0, Fin 0, Fin 1) False))) = Fin 0
   \<and> uav_mass_difference
        (fst (update 5 example_controller (example_state 5000000000 (Fin 0, Fin 0, Fin 0))
                (example_reference (Fin 0, Fin 0, Fin 0.15) False))) = Fin 0.75
   \<and> uav_mass_difference
        (fst (update 5 example_controller (example_state 10000000000 (Fin 0, Fin 0, Fin 0))
                (example_reference (Fin 0, Fin 0, Fin 0.15) False))) = Fin 1"
  using mass_difference_update
    [of example_controller "example_state 1000000000 (Fin 0, Fin 0, Fin 0)" 5
        "example_reference (Fin 0, Fin 0, Fin 0.1) False"]
    mass_difference_update
    [of example_controller "example_state 1000000000 (Fin 0, Fin 0, Fin 0)" 5
        "example_reference (Fin 0, Fin 0, Fin 1) False"]
  by (simp add: nsf_eval example_defs)

section \<open>States too close in time\<close>

text \<open>
  Claim C1, as the code has it. An active controller past its first iteration that gets a
  state within a millisecond of the previous one (\<open>fabs dt \<le> 0.001\<close>) returns the last
  output command if there is one and the activation command otherwise; both integrals and
  the mass difference stay as they were. The call does store the state snapshot and does
  set the time of the last update to the stamp of the state.
\<close>

theorem update_too_close:
  assumes "is_active s" and "\<not> first_iteration s"
    and "fabs (toSec (stamp uav_state - last_update s)) \<le> Fin 0.001"
  shows "snd (update now s uav_state reference) =
           (case last_output_command s of
              Some c \<Rightarrow> Some c
            | None \<Rightarrow> Some (activation_control_command_m s))
       \<and> fst (update now s uav_state reference) =
           s\<lparr> uav_state_m := uav_state, last_update := stamp uav_state \<rparr>
       \<and> Iw_w (fst (update now s uav_state reference)) = Iw_w s
       \<and> Ib_b (fst (update now s uav_state reference)) = Ib_b s
       \<and> uav_mass_difference (fst (update now s uav_state reference)) = uav_mass_difference s"
  using assms by (simp add: update_def Let_def split: option.split)

theorem update_too_close_witness:
  "is_active example_controller \<and> \<not> first_iteration example_controller
   \<and> fabs (toSec (stamp (example_state 500000 (Fin 0, Fin 0, Fin 0))
                     - last_update example_controller)) \<le> Fin 0.001
   \<and> snd (update 5 example_controller (example_state 500000 (Fin 0, Fin 0, Fin 0))
            (example_reference (Fin 1, Fin 0, Fin 1) False)) = Some example_cmd
   \<and> last_update (fst (update 5 example_controller (example_state 500000 (Fin 0, Fin 0, Fin 0))
                          (example_reference (Fin 1, Fin 0, Fin 1) False))) = 500000
   \<and> Iw_w (fst (update 5 example_controller (example_state 500000 (Fin 0, Fin 0, Fin 0))
                   (example_reference (Fin 1, Fin 0, Fin 1) False))) = (Fin 0, Fin 0)
   \<and> Ib_b (fst (update 5 example_controller (example_state 500000 (Fin 0, Fin 0, Fin 0))
                   (example_reference (Fin 1, Fin 0, Fin 1) False))) = (Fin 0, Fin 0)
   \<and> uav_mass_difference
        (fst (update 5 example_controller (example_state 500000 (Fin 0, Fin 0, Fin 0))
                (example_reference (Fin 1, Fin 0, Fin 1) False))) = Fin 0"
  using update_too_close
    [of example_controller "example_state 500000 (Fin 0, Fin 0, Fin 0)" 5
        "example_reference (Fin 1, Fin 0, Fin 1) False"]
  by (simp add: toSec_def example_defs)

text \<open>
  The claim as stated fails twice. A state half a millisecond after the previous one
  moves the time of the last update from 0 to 500000 ns. A state one second older than
  the previous one (\<open>dt = -1\<close>, not positive) is not answered with the stored command: the
  test is on \<open>fabs dt\<close>, the full tick runs with the negative \<open>dt\<close> and takes the mass
  difference from 0 to \<open>-0.1\<close>.
\<close>

theorem update_too_close_counterexample:
  "is_active example_controller \<and> \<not> first_iteration example_controller
   \<and> toSec (stamp (example_state 500000 (Fin 0, Fin 0, Fin 0)) - last_update example_controller)
        \<le> Fin 0.001
   \<and> last_update example_controller = 0
   \<and> last_update (fst (update 5 example_controller (example_state 500000 (Fin 0, Fin 0, Fin 0))
                          (example_reference (Fin 0, Fin 0, Fin 0.1) False))) = 500000
   \<and> is_active (example_controller\<lparr> last_update := 1000000000 \<rparr>)
   \<and> \<not> first_iteration (example_controller\<lparr> last_update := 1000000000 \<rparr>)
   \<and> toSec (stamp (example_state 0 (Fin 0, Fin 0, Fin 0))
              - last_update (example_controller\<lparr> last_update := 1000000000 \<rparr>)) \<le> Fin 0
   \<and> uav_mass_difference (example_controller\<lparr> last_update := 1000000000 \<rparr>) = Fin 0
   \<and> uav_mass_difference
        (fst (update 5 (example_controller\<lparr> last_update := 1000000000 \<rparr>)
                (example_state 0 (Fin 0, Fin 0, Fin 0))
                (example_reference (Fin 0, Fin 0, Fin 0.1) False))) = Fin (- 0.1)
   \<and> snd (update 5 (example_controller\<lparr> last_update := 1000000000 \<rparr>)
            (example_state 0 (Fin 0, Fin 0, Fin 0))
            (example_reference (Fin 0, Fin 0, Fin 0.1) False))
        \<noteq> Some (activation_control_command_m (example_controller\<lparr> last_update := 1000000000 \<rparr>))"
  by (simp add: nsf_eval example_defs)

section \<open>Activation\<close>

text \<open>
  Claim C6. \<open>activate\<close> without a command returns false and leaves the whole state as it
  was, the active flag included. With a command it returns true, takes the mass
  difference from the command, sets each component of the body and of the world integral
  to the \<open>asin\<close> of the command's disturbance divided by \<open>g\<close> times the command's total
  mass, and sets the first-iteration and the active flag.
\<close>

theorem activate_seed:
  "activate s None = (s, False)
   \<and> is_active (fst (activate s None)) = is_active s
   \<and> snd (activate s (Some c)) = True
   \<and> uav_mass_difference (fst (activate s (Some c))) = mass_difference c
   \<and> Ib_b (fst (activate s (Some c))) =
        (asin (disturbance_bx_b c / (g_m s * total_mass c)),
         asin (disturbance_by_b c / (g_m s * total_mass c)))
   \<and> Iw_w (fst (activate s (Some c))) =
        (asin (disturbance_wx_w c / (g_m s * total_mass c)),
         asin (disturbance_wy_w c / (g_m s * total_mass c)))
   \<and> first_iteration (fst (activate s (Some c)))
   \<and> is_active (fst (activate s (Some c)))"
  by (simp add: activate_def)

text \<open>
  The theorem at a deactivated controller: it stays inactive without a command; the
  example command (world disturbance 20 N in \<open>x\<close>, total mass 2, \<open>g = 10\<close>) seeds the
  world integral with \<open>asin 1\<close>.
\<close>

theorem activate_seed_witness:
  "activate (deactivate example_controller) None = (deactivate example_controller, False)
   \<and> \<not> is_active (fst (activate (deactivate example_controller) None))
   \<and> snd (activate (deactivate example_controller) (Some example_cmd))
   \<and> uav_mass_difference (fst (activate (deactivate example_controller) (Some example_cmd))) = Fin 0.25
   \<and> Ib_b (fst (activate (deactivate example_controller) (Some example_cmd))) = (Fin 0, Fin 0)
   \<and> Iw_w (fst (activate (deactivate example_controller) (Some example_cmd))) = (Fin (pi / 2), Fin 0)
   \<and> first_iteration (fst (activate (deactivate example_controller) (Some example_cmd)))
   \<and> is_active (fst (activate (deactivate example_controller) (Some example_cmd)))"
  using activate_seed [of "deactivate example_controller" example_cmd]
  by (simp add: deactivate_def example_defs)

section \<open>Switching the odometry source\<close>

text \<open>
  Claim C9. When the transformer returns a vector, \<open>switchOdometrySource\<close> replaces the
  world integral by its first two components; when it returns nothing, the world integral
  becomes \<open>(0, 0)\<close>. Nothing else of the state changes, and the function has no failing
  result: it returns a controller state in both cases.
\<close>

theorem switchOdometrySource_world_integral:
  "(\<forall>res. transformSingle (frame_id msg)
            \<lparr> v3_stamp = now, v3_frame_id = frame_id (uav_state_m s),
              vector = (fst (Iw_w s), snd (Iw_w s), Fin 0) \<rparr> = Some res
      \<longrightarrow> switchOdometrySource transformSingle now s msg
            = s\<lparr> Iw_w := (fst (vector res), fst (snd (vector res))) \<rparr>)
   \<and> (transformSingle (frame_id msg)
            \<lparr> v3_stamp = now, v3_frame_id = frame_id (uav_state_m s),
              vector = (fst (Iw_w s), snd (Iw_w s), Fin 0) \<rparr> = None
      \<longrightarrow> switchOdometrySource transformSingle now s msg = s\<lparr> Iw_w := (Fin 0, Fin 0) \<rparr>)"
  by (simp add: switchOdometrySource_def Let_def)

text \<open>
  The theorem at a world integral \<open>(1, 2)\<close>: the swapping transformer gives \<open>(2, 1)\<close>, a
  transformer without any transform gives \<open>(0, 0)\<close>.
\<close>

theorem switchOdometrySource_world_integral_witness:
  "Iw_w (switchOdometrySource swap_transform 7 (example_controller\<lparr> Iw_w := (Fin 1, Fin 2) \<rparr>)
          (example_state 0 (Fin 0, Fin 0, Fin 0)\<lparr> frame_id := ''rtk_origin'' \<rparr>)) = (Fin 2, Fin 1)
   \<and> Iw_w (switchOdometrySource (\<lambda>target v. None) 7 (example_controller\<lparr> Iw_w := (Fin 1, Fin 2) \<rparr>)
          (example_state 0 (Fin 0, Fin 0, Fin 0)\<lparr> frame_id := ''rtk_origin'' \<rparr>)) = (Fin 0, Fin 0)"
  using switchOdometrySource_world_integral
     [of swap_transform "example_state 0 (Fin 0, Fin 0, Fin 0)\<lparr> frame_id := ''rtk_origin'' \<rparr>" 7
         "example_controller\<lparr> Iw_w := (Fin 1, Fin 2) \<rparr>"]
    switchOdometrySource_world_integral
     [of "\<lambda>target v. None" "example_state 0 (Fin 0, Fin 0, Fin 0)\<lparr> frame_id := ''rtk_origin'' \<rparr>" 7
         "example_controller\<lparr> Iw_w := (Fin 1, Fin 2) \<rparr>"]
  by (simp add: swap_transform_def example_defs)

section \<open>The state snapshot\<close>

text \<open>
  Claim C10. Every call of \<open>update\<close> stores the state it is given as the snapshot, also a
  call on an inactive controller, which returns no command and changes nothing else. A
  later \<open>switchOdometrySource\<close> hands the transformer the world integral stamped with the
  frame of that snapshot.
\<close>

theorem update_stores_snapshot:
  "uav_state_m (fst (update now s uav_state reference)) = uav_state
   \<and> (\<not> is_active s \<longrightarrow>
        update now s uav_state reference = (s\<lparr> uav_state_m := uav_state \<rparr>, None))
   \<and> Iw_w (switchOdometrySource transformSingle now' (fst (update now s uav_state reference)) msg) =
       (case transformSingle (frame_id msg)
               \<lparr> v3_stamp = now', v3_frame_id = frame_id uav_state,
                 vector = (fst (Iw_w (fst (update now s uav_state reference))),
                           snd (Iw_w (fst (update now s uav_state reference))), Fin 0) \<rparr> of
          Some res \<Rightarrow> (fst (vector res), fst (snd (vector res)))
        | None \<Rightarrow> (Fin 0, Fin 0))"
proof -
  have snap: "uav_state_m (fst (update now s uav_state reference)) = uav_state"
    by (simp add: update_def full_tick_def Let_def split: option.split)
  have inactive: "\<not> is_active s \<longrightarrow>
        update now s uav_state reference = (s\<lparr> uav_state_m := uav_state \<rparr>, None)"
    by (simp add: update_def)
  show ?thesis
    using inactive by (simp add: snap switchOdometrySource_def Let_def split: option.split)
qed

text \<open>
  The theorem at an inactive controller whose old snapshot is in a frame the example
  transformer does not know: the call of \<open>update\<close> returns no command, and the frame
  switch after it transforms from the frame of the new state.
\<close>

theorem update_stores_snapshot_witness:
  "\<not> is_active (deactivate example_controller)
   \<and> frame_id (uav_state_m
        ((deactivate example_controller)
           \<lparr> uav_state_m := (example_state 0 (Fin 0, Fin 0, Fin 0))\<lparr> frame_id := ''local_origin'' \<rparr>,
             Iw_w := (Fin 1, Fin 2) \<rparr>)) = ''local_origin''
   \<and> snd (update 5
            ((deactivate example_controller)
               \<lparr> uav_state_m := (example_state 0 (Fin 0, Fin 0, Fin 0))\<lparr> frame_id := ''local_origin'' \<rparr>,
                 Iw_w := (Fin 1, Fin 2) \<rparr>)
            (example_state 1000000000 (Fin 0, Fin 0, Fin 0))
            (example_reference (Fin 1, Fin 0, Fin 1) False)) = None
   \<and> uav_state_m (fst (update 5
            ((deactivate example_controller)
               \<lparr> uav_state_m := (example_state 0 (Fin 0, Fin 0, Fin 0))\<lparr> frame_id := ''local_origin'' \<rparr>,
                 Iw_w := (Fin 1, Fin 2) \<rparr>)
            (example_state 1000000000 (Fin 0, Fin 0, Fin 0))
            (example_reference (Fin 1, Fin 0, Fin 1) False)))
        = example_state 1000000000 (Fin 0, Fin 0, Fin 0)
   \<and> Iw_w (switchOdometrySource swap_transform 7
        (fst (update 5
            ((deactivate example_controller)
               \<lparr> uav_state_m := (example_state 0 (Fin 0, Fin 0, Fin 0))\<lparr> frame_id := ''local_origin'' \<rparr>,
                 Iw_w := (Fin 1, Fin 2) \<rparr>)
            (example_state 1000000000 (Fin 0, Fin 0, Fin 0))
            (example_reference (Fin 1, Fin 0, Fin 1) False)))
        ((example_state 2000000000 (Fin 0, Fin 0, Fin 0))\<lparr> frame_id := ''rtk_origin'' \<rparr>))
        = (Fin 2, Fin 1)
   \<and> Iw_w (switchOdometrySource swap_transform 7
        ((deactivate example_controller)
           \<lparr> uav_state_m := (example_state 0 (Fin 0, Fin 0, Fin 0))\<lparr> frame_id := ''local_origin'' \<rparr>,
             Iw_w := (Fin 1, Fin 2) \<rparr>)
        ((example_state 2000000000 (Fin 0, Fin 0, Fin 0))\<lparr> frame_id := ''rtk_origin'' \<rparr>))
        = (Fin 0, Fin 0)"
  using update_stores_snapshot
    [of 5 "(deactivate example_controller)
               \<lparr> uav_state_m := (example_state 0 (Fin 0, Fin 0, Fin 0))\<lparr> frame_id := ''local_origin'' \<rparr>,
                 Iw_w := (Fin 1, Fin 2) \<rparr>"
        "example_state 1000000000 (Fin 0, Fin 0, Fin 0)"
        "example_reference (Fin 1, Fin 0, Fin 1) False" swap_transform 7
        "(example_state 2000000000 (Fin 0, Fin 0, Fin 0))\<lparr> frame_id := ''rtk_origin'' \<rparr>"]
  by (simp add: update_def switchOdometrySource_def swap_transform_def deactivate_def
        example_defs Let_def)

section \<open>The bypass of the rate limit\<close>

text \<open>
  Claim C5, as the code has it. The gain filter hands the five lateral gains the bypass
  \<open>mute_lateral_gains \<or> mutex_lateral_gains_after_toggle\<close> and the seven other gains no
  bypass; it clears the second flag and keeps the first. A full tick of \<open>update\<close> sets \<open>mute_lateral_gains\<close> to the flag of the
  reference and raises \<open>mutex_lateral_gains_after_toggle\<close> when the stored flag was set
  and the flag of the reference is not; any other call of \<open>update\<close> leaves both flags. So
  the bypass is on at every run of the filter while the lateral gains are muted, and at
  the first run after a full tick that saw the flag go from true to false.
\<close>

theorem lateral_bypass:
  "kpxy (gains (timerGainsFilter s)) =
     calculateGainChange s (kpxy (gains s)) (kpxy (drs_desired_gains s) * gain_coeff s)
       (mute_lateral_gains s \<or> mutex_lateral_gains_after_toggle s)
   \<and> kvxy (gains (timerGainsFilter s)) =
     calculateGainChange s (kvxy (gains s)) (kvxy (drs_desired_gains s) * gain_coeff s)
       (mute_lateral_gains s \<or> mutex_lateral_gains_after_toggle s)
   \<and> kaxy (gains (timerGainsFilter s)) =
     calculateGainChange s (kaxy (gains s)) (kaxy (drs_desired_gains s) * gain_coeff s)
       (mute_lateral_gains s \<or> mutex_lateral_gains_after_toggle s)
   \<and> kiwxy (gains (timerGainsFilter s)) =
     calculateGainChange s (kiwxy (gains s)) (kiwxy (drs_desired_gains s) * gain_coeff s)
       (mute_lateral_gains s \<or> mutex_lateral_gains_after_toggle s)
   \<and> kibxy (gains (timerGainsFilter s)) =
     calculateGainChange s (kibxy (gains s)) (kibxy (drs_desired_gains s) * gain_coeff s)
       (mute_lateral_gains s \<or> mutex_lateral_gains_after_toggle s)
   \<and> kpz (gains (timerGainsFilter s)) =
     calculateGainChange s (kpz (gains s)) (kpz (drs_desired_gains s)) False
   \<and> kvz (gains (timerGainsFilter s)) =
     calculateGainChange s (kvz (gains s)) (kvz (drs_desired_gains s)) False
   \<and> kaz (gains (timerGainsFilter s)) =
     calculateGainChange s (kaz (gains s)) (kaz (drs_desired_gains s)) False
   \<and> km (gains (timerGainsFilter s)) =
     calculateGainChange s (km (gains s)) (km (drs_desired_gains s)) False
   \<and> kiwxy_lim (gains (timerGainsFilter s)) =
     calculateGainChange s (kiwxy_lim (gains s)) (kiwxy_lim (drs_desired_gains s)) False
   \<and> kibxy_lim (gains (timerGainsFilter s)) =
     calculateGainChange s (kibxy_lim (gains s)) (kibxy_lim (drs_desired_gains s)) False
   \<and> km_lim (gains (timerGainsFilter s)) =
     calculateGainChange s (km_lim (gains s)) (km_lim (drs_desired_gains s)) False
   \<and> mute_lateral_gains (timerGainsFilter s) = mute_lateral_gains s
   \<and> \<not> mutex_lateral_gains_after_toggle (timerGainsFilter s)
   \<and> (is_active s \<and> \<not> first_iteration s
        \<and> \<not> fabs (toSec (stamp uav_state - last_update s)) \<le> Fin 0.001 \<longrightarrow>
        mute_lateral_gains (fst (update now s uav_state reference))
          = disable_position_gains reference
        \<and> mutex_lateral_gains_after_toggle (fst (update now s uav_state reference))
          = (mutex_lateral_gains_after_toggle s
             \<or> (mute_lateral_gains s \<and> \<not> disable_position_gains reference)))
   \<and> (\<not> (is_active s \<and> \<not> first_iteration s
           \<and> \<not> fabs (toSec (stamp uav_state - last_update s)) \<le> Fin 0.001) \<longrightarrow>
        mute_lateral_gains (fst (update now s uav_state reference)) = mute_lateral_gains s
        \<and> mutex_lateral_gains_after_toggle (fst (update now s uav_state reference))
          = mutex_lateral_gains_after_toggle s)"
proof -
  have timer: "gains (timerGainsFilter s) =
      \<lparr> kpxy = calculateGainChange s (kpxy (gains s)) (kpxy (drs_desired_gains s) * gain_coeff s) (bypass_filter s),
        kvxy = calculateGainChange s (kvxy (gains s)) (kvxy (drs_desired_gains s) * gain_coeff s) (bypass_filter s),
        kaxy = calculateGainChange s (kaxy (gains s)) (kaxy (drs_desired_gains s) * gain_coeff s) (bypass_filter s),
        kiwxy = calculateGainChange s (kiwxy (gains s)) (kiwxy (drs_desired_gains s) * gain_coeff s) (bypass_filter s),
        kibxy = calculateGainChange s (kibxy (gains s)) (kibxy (drs_desired_gains s) * gain_coeff s) (bypass_filter s),
        kpz = calculateGainChange s (kpz (gains s)) (kpz (drs_desired_gains s)) False,
        kvz = calculateGainChange s (kvz (gains s)) (kvz (drs_desired_gains s)) False,
        kaz = calculateGainChange s (kaz (gains s)) (kaz (drs_desired_gains s)) False,
        km = calculateGainChange s (km (gains s)) (km (drs_desired_gains s)) False,
        kiwxy_lim = calculateGainChange s (kiwxy_lim (gains s)) (kiwxy_lim (drs_desired_gains s)) False,
        kibxy_lim = calculateGainChange s (kibxy_lim (gains s)) (kibxy_lim (drs_desired_gains s)) False,
        km_lim = calculateGainChange s (km_lim (gains s)) (km_lim (drs_desired_gains s)) False \<rparr>"
    by (simp add: timerGainsFilter_def Let_def)
  have flags: "mute_lateral_gains (timerGainsFilter s) = mute_lateral_gains s"
    "\<not> mutex_lateral_gains_after_toggle (timerGainsFilter s)"
    by (simp_all add: timerGainsFilter_def Let_def)
  have full: "mute_lateral_gains (fst (update now s uav_state reference))
          = disable_position_gains reference
        \<and> mutex_lateral_gains_after_toggle (fst (update now s uav_state reference))
          = (mutex_lateral_gains_after_toggle s
             \<or> (mute_lateral_gains s \<and> \<not> disable_position_gains reference))"
    if "is_active s" "\<not> first_iteration s"
      "\<not> fabs (toSec (stamp uav_state - last_update s)) \<le> Fin 0.001"
    using that by (auto simp add: update_full_tick full_tick_def)
  have early: "mute_lateral_gains (fst (update now s uav_state reference)) = mute_lateral_gains s
        \<and> mutex_lateral_gains_after_toggle (fst (update now s uav_state reference))
          = mutex_lateral_gains_after_toggle s"
    if "\<not> (is_active s \<and> \<not> first_iteration s
           \<and> \<not> fabs (toSec (stamp uav_state - last_update s)) \<le> Fin 0.001)"
    using that by (auto simp add: update_def Let_def split: option.split)
  show ?thesis
    using full early by (simp add: timer flags bypass_filter_def)
qed

text \<open>
  The theorem at a muted controller (live \<open>kpxy = 1\<close>, desired 2; live \<open>kpz = 2\<close>,
  desired 4) whose next reference has the flag cleared: the tick raises the toggle flag,
  the next run of the filter bypasses the rate limit for the lateral gains (\<open>kpxy\<close> goes
  to 2 at once) and not for the others (\<open>kpz\<close> goes to 2.2), and the run after it does not
  bypass.
\<close>

theorem lateral_bypass_witness:
  "is_active (example_controller\<lparr> drs_desired_gains := example_gains\<lparr> kpz := Fin 4 \<rparr>,
      mute_lateral_gains := True, gains := example_gains\<lparr> kpxy := Fin 1 \<rparr> \<rparr>)
   \<and> \<not> first_iteration (example_controller\<lparr> drs_desired_gains := example_gains\<lparr> kpz := Fin 4 \<rparr>,
      mute_lateral_gains := True, gains := example_gains\<lparr> kpxy := Fin 1 \<rparr> \<rparr>)
   \<and> \<not> fabs (toSec (stamp (example_state 1000000000 (Fin 0, Fin 0, Fin 0)) - last_update (example_controller\<lparr> drs_desired_gains := example_gains\<lparr> kpz := Fin 4 \<rparr>,
      mute_lateral_gains := True, gains := example_gains\<lparr> kpxy := Fin 1 \<rparr> \<rparr>))) \<le> Fin 0.001
   \<and> mute_lateral_gains (example_controller\<lparr> drs_desired_gains := example_gains\<lparr> kpz := Fin 4 \<rparr>,
      mute_lateral_gains := True, gains := example_gains\<lparr> kpxy := Fin 1 \<rparr> \<rparr>)
   \<and> \<not> disable_position_gains (example_reference (Fin 0, Fin 0, Fin 0) False)
   \<and> \<not> mute_lateral_gains (fst (update 5 (example_controller\<lparr> drs_desired_gains := example_gains\<lparr> kpz := Fin 4 \<rparr>,
      mute_lateral_gains := True, gains := example_gains\<lparr> kpxy := Fin 1 \<rparr> \<rparr>)
          (example_state 1000000000 (Fin 0, Fin 0, Fin 0))
          (example_reference (Fin 0, Fin 0, Fin 0) False)))
   \<and> mutex_lateral_gains_after_toggle (fst (update 5 (example_controller\<lparr> drs_desired_gains := example_gains\<lparr> kpz := Fin 4 \<rparr>,
      mute_lateral_gains := True, gains := example_gains\<lparr> kpxy := Fin 1 \<rparr> \<rparr>)
          (example_state 1000000000 (Fin 0, Fin 0, Fin 0))
          (example_reference (Fin 0, Fin 0, Fin 0) False)))
   \<and> bypass_filter (fst (update 5 (example_controller\<lparr> drs_desired_gains := example_gains\<lparr> kpz := Fin 4 \<rparr>,
      mute_lateral_gains := True, gains := example_gains\<lparr> kpxy := Fin 1 \<rparr> \<rparr>)
          (example_state 1000000000 (Fin 0, Fin 0, Fin 0))
          (example_reference (Fin 0, Fin 0, Fin 0) False)))
   \<and> kpxy (gains (timerGainsFilter (fst (update 5 (example_controller\<lparr> drs_desired_gains := example_gains\<lparr> kpz := Fin 4 \<rparr>,
      mute_lateral_gains := True, gains := example_gains\<lparr> kpxy := Fin 1 \<rparr> \<rparr>)
          (example_state 1000000000 (Fin 0, Fin 0, Fin 0))
          (example_reference (Fin 0, Fin 0, Fin 0) False))))) = Fin 2
   \<and> kpz (gains (timerGainsFilter (fst (update 5 (example_controller\<lparr> drs_desired_gains := example_gains\<lparr> kpz := Fin 4 \<rparr>,
      mute_lateral_gains := True, gains := example_gains\<lparr> kpxy := Fin 1 \<rparr> \<rparr>)
          (example_state 1000000000 (Fin 0, Fin 0, Fin 0))
          (example_reference (Fin 0, Fin 0, Fin 0) False))))) = Fin 2.2
   \<and> \<not> bypass_filter (timerGainsFilter (fst (update 5 (example_controller\<lparr> drs_desired_gains := example_gains\<lparr> kpz := Fin 4 \<rparr>,
      mute_lateral_gains := True, gains := example_gains\<lparr> kpxy := Fin 1 \<rparr> \<rparr>)
          (example_state 1000000000 (Fin 0, Fin 0, Fin 0))
          (example_reference (Fin 0, Fin 0, Fin 0) False))))"
  using lateral_bypass
      [where s = "(example_controller\<lparr> drs_desired_gains := example_gains\<lparr> kpz := Fin 4 \<rparr>,
      mute_lateral_gains := True, gains := example_gains\<lparr> kpxy := Fin 1 \<rparr> \<rparr>)" and uav_state = "(example_state 1000000000 (Fin 0, Fin 0, Fin 0))" and now = 5 and reference = "(example_reference (Fin 0, Fin 0, Fin 0) False)"]
    lateral_bypass
      [where s = "(fst (update 5 (example_controller\<lparr> drs_desired_gains := example_gains\<lparr> kpz := Fin 4 \<rparr>,
      mute_lateral_gains := True, gains := example_gains\<lparr> kpxy := Fin 1 \<rparr> \<rparr>)
          (example_state 1000000000 (Fin 0, Fin 0, Fin 0))
          (example_reference (Fin 0, Fin 0, Fin 0) False)))" and uav_state = "(example_state 1000000000 (Fin 0, Fin 0, Fin 0))" and now = 5 and reference = "(example_reference (Fin 0, Fin 0, Fin 0) False)"]
  by (simp add: nsf_eval filter_eval example_defs)

text \<open>
  The claim as stated fails while the lateral gains are muted. The controller is not
  muted and gets a reference with the flag set: the flag goes from false to true, not
  from true to false. The next run of the filter bypasses the rate limit all the same
  (\<open>kpxy\<close> goes from 2 to the muted value 1 at once, where the rate limit would give 1.8),
  and so does the run after it.
\<close>

theorem lateral_bypass_counterexample:
  "\<not> mute_lateral_gains example_controller
   \<and> \<not> mutex_lateral_gains_after_toggle example_controller
   \<and> disable_position_gains (example_reference (Fin 0, Fin 0, Fin 0) True)
   \<and> \<not> mutex_lateral_gains_after_toggle (fst (update 5 example_controller
          (example_state 1000000000 (Fin 0, Fin 0, Fin 0))
          (example_reference (Fin 0, Fin 0, Fin 0) True)))
   \<and> bypass_filter (fst (update 5 example_controller
          (example_state 1000000000 (Fin 0, Fin 0, Fin 0))
          (example_reference (Fin 0, Fin 0, Fin 0) True)))
   \<and> kpxy (gains (timerGainsFilter (fst (update 5 example_controller
          (example_state 1000000000 (Fin 0, Fin 0, Fin 0))
          (example_reference (Fin 0, Fin 0, Fin 0) True))))) = Fin 1
   \<and> calculateGainChange (fst (update 5 example_controller
          (example_state 1000000000 (Fin 0, Fin 0, Fin 0))
          (example_reference (Fin 0, Fin 0, Fin 0) True))) (Fin 2) (Fin 1) False = Fin 1.8
   \<and> bypass_filter (timerGainsFilter (fst (update 5 example_controller
          (example_state 1000000000 (Fin 0, Fin 0, Fin 0))
          (example_reference (Fin 0, Fin 0, Fin 0) True))))"
  by (simp add: nsf_eval filter_eval example_defs)

section \<open>One step of the gain filter\<close>








end
